theory Spec2Isabelle
  imports Main
begin

section \<open>The users table\<close>

text \<open>
  \<^verbatim>\<open>class User(Base)\<close> (app.py, lines 37-41): one row of the table \<^verbatim>\<open>users\<close>.
  The column \<^verbatim>\<open>id\<close> is called \<open>id_col\<close> here, since \<open>id\<close> is HOL's identity function.
  Python integers are unbounded, so the id is an \<open>int\<close>.
\<close>

record User =
  id_col :: int
  username :: string
  password :: string

text \<open>
  The state of the service is the content of the table: its rows, in the order in which
  they were inserted. Every handler receives the table and returns the table it leaves
  behind (the session is committed and closed on every path of \<^verbatim>\<open>get_db\<close>, and a handler
  that raises has written nothing).
\<close>

type_synonym users_table = "User list"

text \<open>
  \<^verbatim>\<open>UserCreate\<close> (lines 47-49): the validated request body of the create operation.
\<close>

record UserCreate =
  uc_username :: string
  uc_password :: string

text \<open>
  What a handler can raise: the \<^verbatim>\<open>HTTPException(status_code, detail)\<close> of lines 73 and
  107; the database's rejection of an insert that breaks \<^verbatim>\<open>unique=True\<close> on the
  username column (line 40); and the \<^verbatim>\<open>OverflowError\<close> of the SQLite driver when a query
  parameter is a Python integer that does not fit SQLite's 64-bit integers. No handler
  catches the last two.
\<close>

datatype error = HTTPException nat string | IntegrityError | OverflowError

text \<open>The integers SQLite can hold: 64 bits, signed.\<close>

definition sqlite_int :: "int \<Rightarrow> bool" where
  "sqlite_int i = (- 9223372036854775808 \<le> i \<and> i \<le> 9223372036854775807)"

subsection \<open>Queries and writes of the session\<close>

text \<open>\<^verbatim>\<open>db.query(User).filter(User.username == name).first()\<close> (line 71).\<close>

definition first_by_username :: "string \<Rightarrow> users_table \<Rightarrow> User option" where
  "first_by_username name tbl = find (\<lambda>r. username r = name) tbl"

text \<open>
  \<^verbatim>\<open>db.query(User).filter(User.id == user_id).first()\<close> (line 94). The path parameter
  \<^verbatim>\<open>user_id\<close> is a Python integer of any size and is bound as the parameter of the query:
  outside the 64-bit range the driver raises before any row is looked at.
\<close>

definition first_by_id :: "int \<Rightarrow> users_table \<Rightarrow> error + User option" where
  "first_by_id user_id tbl =
     (if sqlite_int user_id then Inr (find (\<lambda>r. id_col r = user_id) tbl)
      else Inl OverflowError)"

text \<open>
  The id of a new row. The engine is SQLite (\<^verbatim>\<open>DATABASE_URL\<close>, line 12), which has no
  sequences: the \<^verbatim>\<open>Sequence("user_id_seq")\<close> of line 39 is not used there, and the column
  is an integer primary key without the AUTOINCREMENT keyword. For such a column
  SQLite gives a new row the id 1 when the table is empty and otherwise one more than
  the largest id that is in the table at that moment. (Once the largest stored id is
  \<open>2^63 - 1\<close> SQLite tries unused ids at random instead; that is not modelled.)
\<close>

definition next_rowid :: "users_table \<Rightarrow> int" where
  "next_rowid tbl =
     (case tbl of [] \<Rightarrow> 1 | r # rs \<Rightarrow> fold max (map id_col rs) (id_col r) + 1)"

text \<open>
  \<^verbatim>\<open>db.add(user); db.commit(); db.refresh(user)\<close> (lines 77-80): the insert. It fails
  when the username is already stored (the unique index), and otherwise stores the row
  under a new id and hands the stored row back.
\<close>

definition add_commit :: "string \<Rightarrow> string \<Rightarrow> users_table \<Rightarrow> error + (User \<times> users_table)" where
  "add_commit name pw tbl =
     (if name \<in> set (map username tbl) then Inl IntegrityError
      else let user = \<lparr>id_col = next_rowid tbl, username = name, password = pw\<rparr>
           in Inr (user, tbl @ [user]))"

text \<open>\<^verbatim>\<open>db.delete(user); db.commit()\<close> (lines 100-101): \<^verbatim>\<open>DELETE ... WHERE id = user.id\<close>.\<close>

definition delete_commit :: "User \<Rightarrow> users_table \<Rightarrow> users_table" where
  "delete_commit user tbl = filter (\<lambda>r. id_col r \<noteq> id_col user) tbl"

section \<open>The three handlers\<close>

text \<open>\<^verbatim>\<open>create_user\<close> (lines 69-81).\<close>

definition create_user :: "UserCreate \<Rightarrow> users_table \<Rightarrow> (error + User) \<times> users_table" where
  "create_user user_create tbl =
     (case first_by_username (uc_username user_create) tbl of
        Some existing_user \<Rightarrow> (Inl (HTTPException 400 ''Username already registered''), tbl)
      | None \<Rightarrow>
          (case add_commit (uc_username user_create) (uc_password user_create) tbl of
             Inl e \<Rightarrow> (Inl e, tbl)
           | Inr (user, tbl') \<Rightarrow> (Inr user, tbl')))"

text \<open>\<^verbatim>\<open>get_users\<close> (lines 86-88): \<^verbatim>\<open>db.query(User).all()\<close>.\<close>

definition get_users :: "users_table \<Rightarrow> User list" where
  "get_users tbl = tbl"

text \<open>\<^verbatim>\<open>delete_user\<close> (lines 92-107).\<close>

definition delete_user :: "int \<Rightarrow> users_table \<Rightarrow> (error + User) \<times> users_table" where
  "delete_user user_id tbl =
     (case first_by_id user_id tbl of
        Inl e \<Rightarrow> (Inl e, tbl)
      | Inr (Some user) \<Rightarrow> (Inr user, delete_commit user tbl)
      | Inr None \<Rightarrow> (Inl (HTTPException 404 ''User not found''), tbl))"

section \<open>Requests and responses\<close>

text \<open>JSON values, for request bodies and response payloads. An object keeps its members
  in the order of the text; numbers are the integers.\<close>

datatype json =
    JNull
  | JBool bool
  | JNum int
  | JStr string
  | JArr "json list"
  | JObj "(string \<times> json) list"

text \<open>The value of a member of a parsed object: as in a Python dict built by
  \<^verbatim>\<open>json.loads\<close>, the last occurrence of a repeated name counts.\<close>

definition dict_get :: "string \<Rightarrow> (string \<times> json) list \<Rightarrow> json option" where
  "dict_get k kvs = map_of (rev kvs) k"

text \<open>The same for a JSON value: only an object has members.\<close>

fun member_of :: "string \<Rightarrow> json \<Rightarrow> json option" where
  "member_of k (JObj kvs) = dict_get k kvs"
| "member_of k j = None"

text \<open>Every member name that occurs in a JSON value, at any depth.\<close>

primrec names_in :: "json \<Rightarrow> string list" where
  "names_in JNull = []"
| "names_in (JBool b) = []"
| "names_in (JNum n) = []"
| "names_in (JStr s) = []"
| "names_in (JArr js) = concat (map names_in js)"
| "names_in (JObj kvs) = concat (map (\<lambda>kv. fst kv # snd kv) (map (map_prod id names_in) kvs))"

text \<open>
  What the client receives: a JSON response with its status code; the framework's answer
  422 to a request that fails validation (its body, a list of the offending fields, is not
  modelled); and the answer 500 to an exception no handler catches.
\<close>

datatype response =
    JSONResponse nat json
  | RequestValidationError
  | InternalServerError

fun status_code :: "response \<Rightarrow> nat" where
  "status_code (JSONResponse code body) = code"
| "status_code RequestValidationError = 422"
| "status_code InternalServerError = 500"

fun error_response :: "error \<Rightarrow> response" where
  "error_response (HTTPException code detail) = JSONResponse code (JObj [(''detail'', JStr detail)])"
| "error_response IntegrityError = InternalServerError"
| "error_response OverflowError = InternalServerError"

text \<open>
  Validation of the request body against \<^verbatim>\<open>UserCreate\<close> (line 69): the body must be an
  object whose members \<^verbatim>\<open>username\<close> and \<^verbatim>\<open>password\<close> are present and are strings. The
  class sets no model configuration, so members with other names are not looked at
  (pydantic's default for extra members is to ignore them). A member that is not a JSON
  string is not converted to one (pydantic 2, the release under which the response
  models of lines 85 and 91 read the returned rows by attribute).
\<close>

definition str_field :: "string \<Rightarrow> (string \<times> json) list \<Rightarrow> string option" where
  "str_field k kvs = (case dict_get k kvs of Some (JStr s) \<Rightarrow> Some s | _ \<Rightarrow> None)"

fun validate_UserCreate :: "json \<Rightarrow> UserCreate option" where
  "validate_UserCreate (JObj kvs) =
     (case str_field ''username'' kvs of
        None \<Rightarrow> None
      | Some u \<Rightarrow>
          (case str_field ''password'' kvs of
             None \<Rightarrow> None
           | Some p \<Rightarrow> Some \<lparr>uc_username = u, uc_password = p\<rparr>))"
| "validate_UserCreate body = None"

text \<open>
  \<^verbatim>\<open>UserResponse\<close> (lines 52-54): the response model of the list and delete routes keeps
  the fields \<^verbatim>\<open>id\<close> and \<^verbatim>\<open>username\<close> of the object the handler returns.
\<close>

definition UserResponse :: "User \<Rightarrow> json" where
  "UserResponse user = JObj [(''id'', JNum (id_col user)), (''username'', JStr (username user))]"

text \<open>
  The create route declares no response model (line 68), so the object the handler
  returns is encoded as it is: every loaded column attribute of the row becomes a member.
\<close>

definition jsonable_encoder :: "User \<Rightarrow> json" where
  "jsonable_encoder user =
     JObj [(''id'', JNum (id_col user)), (''username'', JStr (username user)),
           (''password'', JStr (password user))]"

subsection \<open>The routes\<close>

text \<open>\<^verbatim>\<open>POST /create_user\<close> (line 68).\<close>

definition route_create_user :: "json \<Rightarrow> users_table \<Rightarrow> response \<times> users_table" where
  "route_create_user body tbl =
     (case validate_UserCreate body of
        None \<Rightarrow> (RequestValidationError, tbl)
      | Some user_create \<Rightarrow>
          (case create_user user_create tbl of
             (Inl e, tbl') \<Rightarrow> (error_response e, tbl')
           | (Inr user, tbl') \<Rightarrow> (JSONResponse 200 (jsonable_encoder user), tbl')))"

text \<open>\<^verbatim>\<open>GET /get_users\<close>, with \<^verbatim>\<open>response_model=list[UserResponse]\<close> (line 85).\<close>

definition route_get_users :: "users_table \<Rightarrow> response \<times> users_table" where
  "route_get_users tbl = (JSONResponse 200 (JArr (map UserResponse (get_users tbl))), tbl)"

text \<open>
  \<^verbatim>\<open>DELETE /delete_user/{user_id}\<close>, with \<^verbatim>\<open>response_model=UserResponse\<close> (line 91). The
  path segment is text; the annotation \<^verbatim>\<open>user_id: int\<close> (line 92) makes the framework
  convert it before the handler is called and answer 422 when it cannot. The converter
  belongs to the framework, so it is a parameter \<open>to_int\<close> here.
\<close>

definition route_delete_user ::
  "(string \<Rightarrow> int option) \<Rightarrow> string \<Rightarrow> users_table \<Rightarrow> response \<times> users_table" where
  "route_delete_user to_int segment tbl =
     (case to_int segment of
        None \<Rightarrow> (RequestValidationError, tbl)
      | Some user_id \<Rightarrow>
          (case delete_user user_id tbl of
             (Inl e, tbl') \<Rightarrow> (error_response e, tbl')
           | (Inr user, tbl') \<Rightarrow> (JSONResponse 200 (UserResponse user), tbl')))"

subsection \<open>Sequences of requests\<close>

datatype request =
    POST_create_user json
  | GET_get_users
  | DELETE_delete_user string

fun dispatch :: "(string \<Rightarrow> int option) \<Rightarrow> request \<Rightarrow> users_table \<Rightarrow> response \<times> users_table" where
  "dispatch to_int (POST_create_user body) tbl = route_create_user body tbl"
| "dispatch to_int GET_get_users tbl = route_get_users tbl"
| "dispatch to_int (DELETE_delete_user segment) tbl = route_delete_user to_int segment tbl"

text \<open>The table after a sequence of requests, handled one at a time.\<close>

fun run :: "(string \<Rightarrow> int option) \<Rightarrow> request list \<Rightarrow> users_table \<Rightarrow> users_table" where
  "run to_int [] tbl = tbl"
| "run to_int (rq # rqs) tbl = run to_int rqs (snd (dispatch to_int rq tbl))"

text \<open>The responses to a sequence of requests, in order.\<close>

fun replies :: "(string \<Rightarrow> int option) \<Rightarrow> request list \<Rightarrow> users_table \<Rightarrow> response list" where
  "replies to_int [] tbl = []"
| "replies to_int (rq # rqs) tbl =
     fst (dispatch to_int rq tbl) # replies to_int rqs (snd (dispatch to_int rq tbl))"

text \<open>How many requests of one kind were answered with status 200.\<close>

fun is_create :: "request \<Rightarrow> bool" where
  "is_create (POST_create_user body) = True"
| "is_create rq = False"

fun is_delete :: "request \<Rightarrow> bool" where
  "is_delete (DELETE_delete_user segment) = True"
| "is_delete rq = False"

fun count_ok :: "(request \<Rightarrow> bool) \<Rightarrow> (string \<Rightarrow> int option) \<Rightarrow> request list \<Rightarrow> users_table \<Rightarrow> nat" where
  "count_ok kind to_int [] tbl = 0"
| "count_ok kind to_int (rq # rqs) tbl =
     (if kind rq \<and> status_code (fst (dispatch to_int rq tbl)) = 200 then 1 else 0)
     + count_ok kind to_int rqs (snd (dispatch to_int rq tbl))"

text \<open>A converter for decimal digit strings, to run concrete delete requests with.\<close>

fun digit_value :: "char \<Rightarrow> int option" where
  "digit_value c = map_of (zip ''0123456789'' [0, 1, 2, 3, 4, 5, 6, 7, 8, 9]) c"

fun digits_from :: "int \<Rightarrow> string \<Rightarrow> int option" where
  "digits_from acc [] = Some acc"
| "digits_from acc (c # cs) =
     (case digit_value c of None \<Rightarrow> None | Some d \<Rightarrow> digits_from (10 * acc + d) cs)"

definition decimal :: "string \<Rightarrow> int option" where
  "decimal s = (if s = [] then None else digits_from 0 s)"

section \<open>Facts about the table operations\<close>

lemma find_None_iff_username:
  "first_by_username name tbl = None \<longleftrightarrow> name \<notin> set (map username tbl)"
  by (auto simp: first_by_username_def find_None_iff)

lemma fold_max_ge_start: "(a::int) \<le> fold max xs a"
proof (induction xs arbitrary: a)
  case Nil
  show ?case by simp
next
  case (Cons x xs)
  have "a \<le> max x a" by simp
  also have "max x a \<le> fold max xs (max x a)" by (rule Cons.IH)
  finally show ?case by simp
qed

lemma fold_max_ge_elem: "(x::int) \<in> set xs \<Longrightarrow> x \<le> fold max xs a"
proof (induction xs arbitrary: a)
  case Nil
  then show ?case by simp
next
  case (Cons y ys)
  show ?case
  proof (cases "x = y")
    case True
    have "x \<le> max y a" using True by simp
    also have "max y a \<le> fold max ys (max y a)" by (rule fold_max_ge_start)
    finally show ?thesis by simp
  next
    case False
    with Cons.prems have "x \<in> set ys" by simp
    then show ?thesis using Cons.IH by simp
  qed
qed

lemma next_rowid_gt: "r \<in> set tbl \<Longrightarrow> id_col r < next_rowid tbl"
proof (cases tbl)
  case Nil
  assume "r \<in> set tbl"
  with Nil show ?thesis by simp
next
  case (Cons a as)
  assume mem: "r \<in> set tbl"
  show ?thesis
  proof (cases "r = a")
    case True
    then show ?thesis
      using Cons fold_max_ge_start [of "id_col a" "map id_col as"]
      by (simp add: next_rowid_def)
  next
    case False
    with mem Cons have "id_col r \<in> set (map id_col as)" by simp
    then have "id_col r \<le> fold max (map id_col as) (id_col a)"
      by (rule fold_max_ge_elem)
    then show ?thesis using Cons by (simp add: next_rowid_def)
  qed
qed

lemma next_rowid_fresh: "next_rowid tbl \<notin> set (map id_col tbl)"
  using next_rowid_gt by fastforce

lemma create_user_fresh:
  "uc_username uc \<notin> set (map username tbl) \<Longrightarrow>
   create_user uc tbl =
     (Inr \<lparr>id_col = next_rowid tbl, username = uc_username uc, password = uc_password uc\<rparr>,
      tbl @ [\<lparr>id_col = next_rowid tbl, username = uc_username uc, password = uc_password uc\<rparr>])"
  by (simp add: create_user_def add_commit_def find_None_iff_username [symmetric] Let_def del: set_map)

lemma create_user_taken:
  "uc_username uc \<in> set (map username tbl) \<Longrightarrow>
   create_user uc tbl = (Inl (HTTPException 400 ''Username already registered''), tbl)"
  using find_None_iff_username [of "uc_username uc" tbl]
  by (auto simp: create_user_def split: option.splits)

lemma first_by_id_None:
  "first_by_id i tbl = Inr None \<longleftrightarrow> sqlite_int i \<and> i \<notin> set (map id_col tbl)"
  by (auto simp: first_by_id_def find_None_iff)

lemma first_by_id_Some:
  "first_by_id i tbl = Inr (Some r) \<Longrightarrow> r \<in> set tbl \<and> id_col r = i \<and> sqlite_int i"
  by (auto simp: first_by_id_def find_Some_iff split: if_splits)

lemma first_by_id_overflow: "\<not> sqlite_int i \<Longrightarrow> first_by_id i tbl = Inl OverflowError"
  by (simp add: first_by_id_def)

lemma find_by_id_distinct:
  "distinct (map id_col tbl) \<Longrightarrow> r \<in> set tbl \<Longrightarrow> find (\<lambda>x. id_col x = id_col r) tbl = Some r"
  by (induction tbl) auto

lemma first_by_id_distinct:
  "sqlite_int (id_col r) \<Longrightarrow> distinct (map id_col tbl) \<Longrightarrow> r \<in> set tbl \<Longrightarrow>
   first_by_id (id_col r) tbl = Inr (Some r)"
  by (simp add: first_by_id_def find_by_id_distinct)

lemma filter_id_remove1:
  "distinct (map id_col tbl) \<Longrightarrow> r \<in> set tbl \<Longrightarrow>
   filter (\<lambda>x. id_col x \<noteq> id_col r) tbl = remove1 r tbl"
proof (induction tbl)
  case Nil
  then show ?case by simp
next
  case (Cons a tbl)
  show ?case
  proof (cases "a = r")
    case True
    have "\<forall>x\<in>set tbl. id_col x \<noteq> id_col r"
      using Cons.prems True by (auto simp: image_iff)
    then have "filter (\<lambda>x. id_col x \<noteq> id_col r) tbl = tbl"
      by (simp add: filter_id_conv)
    with True show ?thesis by simp
  next
    case False
    with Cons show ?thesis by auto
  qed
qed

lemma delete_user_absent:
  "sqlite_int user_id \<Longrightarrow> user_id \<notin> set (map id_col tbl) \<Longrightarrow>
   delete_user user_id tbl = (Inl (HTTPException 404 ''User not found''), tbl)"
  using first_by_id_None [of user_id tbl]
  by (simp add: delete_user_def del: set_map)

lemma delete_user_overflow:
  "\<not> sqlite_int user_id \<Longrightarrow> delete_user user_id tbl = (Inl OverflowError, tbl)"
  by (simp add: delete_user_def first_by_id_overflow)

lemma delete_user_existing:
  assumes "sqlite_int (id_col r)" and "distinct (map id_col tbl)" and "r \<in> set tbl"
  shows "delete_user (id_col r) tbl = (Inr r, remove1 r tbl)"
  using assms by (simp add: delete_user_def first_by_id_distinct delete_commit_def filter_id_remove1)

lemma route_create_user_fresh:
  assumes "validate_UserCreate body = Some uc" and "uc_username uc \<notin> set (map username tbl)"
  shows "route_create_user body tbl =
     (JSONResponse 200 (jsonable_encoder
        \<lparr>id_col = next_rowid tbl, username = uc_username uc, password = uc_password uc\<rparr>),
      tbl @ [\<lparr>id_col = next_rowid tbl, username = uc_username uc, password = uc_password uc\<rparr>])"
  using assms by (simp add: route_create_user_def create_user_fresh del: set_map)

lemma route_create_user_taken:
  assumes "validate_UserCreate body = Some uc" and "uc_username uc \<in> set (map username tbl)"
  shows "route_create_user body tbl =
     (JSONResponse 400 (JObj [(''detail'', JStr ''Username already registered'')]), tbl)"
  using assms by (simp add: route_create_user_def create_user_taken del: set_map)

lemma route_create_user_invalid:
  "validate_UserCreate body = None \<Longrightarrow> route_create_user body tbl = (RequestValidationError, tbl)"
  by (simp add: route_create_user_def)

lemma route_delete_user_absent:
  assumes "to_int segment = Some user_id" and "sqlite_int user_id"
    and "user_id \<notin> set (map id_col tbl)"
  shows "route_delete_user to_int segment tbl =
     (JSONResponse 404 (JObj [(''detail'', JStr ''User not found'')]), tbl)"
  using assms by (simp add: route_delete_user_def delete_user_absent del: set_map)

lemma route_delete_user_overflow:
  assumes "to_int segment = Some user_id" and "\<not> sqlite_int user_id"
  shows "route_delete_user to_int segment tbl = (InternalServerError, tbl)"
  using assms by (simp add: route_delete_user_def delete_user_overflow)

lemma route_delete_user_existing:
  assumes "sqlite_int (id_col r)" and "distinct (map id_col tbl)"
    and "to_int segment = Some (id_col r)" and "r \<in> set tbl"
  shows "route_delete_user to_int segment tbl = (JSONResponse 200 (UserResponse r), remove1 r tbl)"
  using assms by (simp add: route_delete_user_def delete_user_existing)

lemma route_delete_user_invalid:
  "to_int segment = None \<Longrightarrow> route_delete_user to_int segment tbl = (RequestValidationError, tbl)"
  by (simp add: route_delete_user_def)

text \<open>One request changes the table in one of three ways.\<close>

lemma dispatch_cases:
  assumes pk: "distinct (map id_col tbl)"
  obtains
    (same) "snd (dispatch to_int rq tbl) = tbl"
      "\<not> (status_code (fst (dispatch to_int rq tbl)) = 200 \<and> (is_create rq \<or> is_delete rq))"
  | (created) u p where "is_create rq" "u \<notin> set (map username tbl)"
      "status_code (fst (dispatch to_int rq tbl)) = 200"
      "snd (dispatch to_int rq tbl) = tbl @ [\<lparr>id_col = next_rowid tbl, username = u, password = p\<rparr>]"
  | (deleted) r where "is_delete rq" "r \<in> set tbl"
      "status_code (fst (dispatch to_int rq tbl)) = 200"
      "snd (dispatch to_int rq tbl) = remove1 r tbl"
proof (cases rq)
  case (POST_create_user body)
  show ?thesis
  proof (cases "validate_UserCreate body")
    case None
    then show ?thesis using POST_create_user same by (simp add: route_create_user_invalid)
  next
    case (Some uc)
    show ?thesis
    proof (cases "uc_username uc \<in> set (map username tbl)")
      case True
      with Some show ?thesis using POST_create_user same
        by (simp add: route_create_user_taken del: set_map)
    next
      case False
      with Some show ?thesis using POST_create_user created [of "uc_username uc" "uc_password uc"]
        by (simp add: route_create_user_fresh del: set_map)
    qed
  qed
next
  case GET_get_users
  then show ?thesis using same by (simp add: route_get_users_def)
next
  case (DELETE_delete_user segment)
  show ?thesis
  proof (cases "to_int segment")
    case None
    then show ?thesis using DELETE_delete_user same by (simp add: route_delete_user_invalid)
  next
    case (Some i)
    show ?thesis
    proof (cases "sqlite_int i")
      case False
      with Some show ?thesis using DELETE_delete_user same
        by (simp add: route_delete_user_overflow)
    next
      case inrange: True
      show ?thesis
      proof (cases "i \<in> set (map id_col tbl)")
        case False
        with Some inrange show ?thesis using DELETE_delete_user same
          by (simp add: route_delete_user_absent del: set_map)
      next
        case True
        then obtain r where r: "r \<in> set tbl" "id_col r = i" by auto
        with Some pk inrange have "route_delete_user to_int segment tbl
            = (JSONResponse 200 (UserResponse r), remove1 r tbl)"
          by (simp add: route_delete_user_existing)
        then show ?thesis using DELETE_delete_user r deleted [of r] by simp
      qed
    qed
  qed
qed

lemma dispatch_primary_key:
  assumes "distinct (map id_col tbl)"
  shows "distinct (map id_col (snd (dispatch to_int rq tbl)))"
  using assms
proof (cases rule: dispatch_cases [of tbl to_int rq])
  case same
  with assms show ?thesis by simp
next
  case (created u p)
  with assms show ?thesis using next_rowid_fresh [of tbl] by simp
next
  case (deleted r)
  with assms show ?thesis by (simp add: distinct_map_filter distinct_remove1 distinct_map inj_on_def)
qed

section \<open>Invariants of the table\<close>

lemma dispatch_unique_usernames:
  assumes "distinct (map id_col tbl)" and "distinct (map username tbl)"
  shows "distinct (map username (snd (dispatch to_int rq tbl)))"
  using assms(1)
proof (cases rule: dispatch_cases [of tbl to_int rq])
  case same
  with assms show ?thesis by simp
next
  case (created u p)
  with assms show ?thesis by simp
next
  case (deleted r)
  have "distinct tbl" using assms(1) by (simp add: distinct_map)
  moreover have "inj_on username (set tbl)" using assms(2) by (simp add: distinct_map)
  ultimately have "distinct (map username (remove1 r tbl))"
    by (simp add: distinct_map inj_on_def)
  with deleted show ?thesis by simp
qed

lemma dispatch_length:
  assumes "distinct (map id_col tbl)"
  shows "length (snd (dispatch to_int rq tbl))
           + (if is_delete rq \<and> status_code (fst (dispatch to_int rq tbl)) = 200 then 1 else 0)
         = length tbl
           + (if is_create rq \<and> status_code (fst (dispatch to_int rq tbl)) = 200 then 1 else 0)"
  using assms
proof (cases rule: dispatch_cases [of tbl to_int rq])
  case same
  then show ?thesis by auto
next
  case (created u p)
  then have "\<not> is_delete rq" by (cases rq) auto
  with created show ?thesis by simp
next
  case (deleted r)
  then have nc: "\<not> is_create rq" by (cases rq) auto
  have "0 < length tbl" using deleted(2) by (cases tbl) auto
  with deleted nc show ?thesis by (simp add: length_remove1)
qed

lemma run_invariants:
  "distinct (map id_col tbl) \<Longrightarrow> distinct (map username tbl) \<Longrightarrow>
   distinct (map id_col (run to_int rqs tbl)) \<and> distinct (map username (run to_int rqs tbl))"
proof (induction rqs arbitrary: tbl)
  case Nil
  then show ?case by simp
next
  case (Cons rq rqs)
  have "distinct (map id_col (snd (dispatch to_int rq tbl)))"
    using Cons.prems(1) by (rule dispatch_primary_key)
  moreover have "distinct (map username (snd (dispatch to_int rq tbl)))"
    using Cons.prems by (rule dispatch_unique_usernames)
  ultimately show ?case using Cons.IH by simp
qed

lemma run_length:
  "distinct (map id_col tbl) \<Longrightarrow>
   length (run to_int rqs tbl) + count_ok is_delete to_int rqs tbl
     = length tbl + count_ok is_create to_int rqs tbl"
proof (induction rqs arbitrary: tbl)
  case Nil
  then show ?case by simp
next
  case (Cons rq rqs)
  let ?t = "snd (dispatch to_int rq tbl)"
  have pk: "distinct (map id_col ?t)"
    using Cons.prems by (rule dispatch_primary_key)
  have ih: "length (run to_int rqs ?t) + count_ok is_delete to_int rqs ?t
     = length ?t + count_ok is_create to_int rqs ?t"
    using pk by (rule Cons.IH)
  have st: "length ?t
           + (if is_delete rq \<and> status_code (fst (dispatch to_int rq tbl)) = 200 then 1 else 0)
         = length tbl
           + (if is_create rq \<and> status_code (fst (dispatch to_int rq tbl)) = 200 then 1 else 0)"
    using Cons.prems by (rule dispatch_length)
  show ?case using ih st by (simp split: if_splits)
qed

lemma member_of_id_UserResponse: "member_of ''id'' (UserResponse r) = Some (JNum (id_col r))"
  by (simp add: UserResponse_def dict_get_def)

section \<open>Payloads and request bodies\<close>

lemma names_in_UserResponse: "names_in (UserResponse r) = [''id'', ''username'']"
  by (simp add: UserResponse_def)

lemma names_in_error_response:
  "error_response e = JSONResponse code body \<Longrightarrow> names_in body = [''detail'']"
  by (cases e) auto

lemma get_users_payload_no_password:
  "fst (route_get_users tbl) = JSONResponse code body \<Longrightarrow> ''password'' \<notin> set (names_in body)"
  by (auto simp: route_get_users_def names_in_UserResponse split: if_splits)

lemma delete_user_payload_no_password:
  "fst (route_delete_user to_int segment tbl) = JSONResponse code body \<Longrightarrow>
   ''password'' \<notin> set (names_in body)"
  by (auto simp: route_delete_user_def names_in_UserResponse
      split: option.splits prod.splits sum.splits dest: names_in_error_response)

lemma create_user_payload_has_password:
  "fst (route_create_user body tbl) = JSONResponse 200 payload \<Longrightarrow>
   ''password'' \<in> set (names_in payload)"
  by (auto simp: route_create_user_def jsonable_encoder_def create_user_def add_commit_def Let_def
      split: option.splits prod.splits sum.splits if_splits)

lemma dict_get_skip:
  "k' \<noteq> k \<Longrightarrow> dict_get k' (xs @ (k, v) # ys) = dict_get k' (xs @ ys)"
  by (simp add: dict_get_def map_add_def split: option.splits)

lemma str_field_skip:
  "k' \<noteq> k \<Longrightarrow> str_field k' (xs @ (k, v) # ys) = str_field k' (xs @ ys)"
  by (simp add: str_field_def dict_get_skip)

lemma create_user_never_integrity_error: "fst (create_user uc tbl) \<noteq> Inl IntegrityError"
  using find_None_iff_username [of "uc_username uc" tbl]
  by (auto simp: create_user_def add_commit_def Let_def split: option.splits)

text \<open>The definitions that evaluate a concrete request.\<close>

lemmas eval_defs = route_create_user_def route_delete_user_def route_get_users_def
  create_user_def delete_user_def get_users_def first_by_username_def first_by_id_def
  add_commit_def delete_commit_def next_rowid_def sqlite_int_def str_field_def dict_get_def
  jsonable_encoder_def UserResponse_def decimal_def Let_def

section \<open>The claims\<close>

subsection \<open>Errors of create and delete\<close>

text \<open>
  C3. Whatever the table holds, a create request whose username is already stored is
  answered with status 400 and the detail \<^verbatim>\<open>Username already registered\<close>, and the table
  is the same afterwards: nothing is inserted, so the list has as many records as before.
\<close>

theorem create_duplicate_username_rejected:
  assumes "validate_UserCreate body = Some uc"
    and "uc_username uc \<in> set (map username tbl)"
  shows "route_create_user body tbl =
       (JSONResponse 400 (JObj [(''detail'', JStr ''Username already registered'')]), tbl)
     \<and> status_code (fst (route_create_user body tbl)) = 400
     \<and> length (get_users (snd (route_create_user body tbl))) = length (get_users tbl)"
  using assms by (simp add: route_create_user_taken del: set_map)

theorem create_duplicate_username_rejected_witness:
  "validate_UserCreate (JObj [(''username'', JStr ''alice''), (''password'', JStr ''p2'')])
     = Some \<lparr>uc_username = ''alice'', uc_password = ''p2''\<rparr>
   \<and> ''alice'' \<in> set (map username [\<lparr>id_col = 1, username = ''alice'', password = ''p1''\<rparr>])
   \<and> route_create_user (JObj [(''username'', JStr ''alice''), (''password'', JStr ''p2'')])
        [\<lparr>id_col = 1, username = ''alice'', password = ''p1''\<rparr>]
      = (JSONResponse 400 (JObj [(''detail'', JStr ''Username already registered'')]),
         [\<lparr>id_col = 1, username = ''alice'', password = ''p1''\<rparr>])"
proof -
  have v: "validate_UserCreate (JObj [(''username'', JStr ''alice''), (''password'', JStr ''p2'')])
     = Some \<lparr>uc_username = ''alice'', uc_password = ''p2''\<rparr>"
    by (simp add: str_field_def dict_get_def)
  have m: "uc_username \<lparr>uc_username = ''alice'', uc_password = ''p2''\<rparr>
     \<in> set (map username [\<lparr>id_col = 1, username = ''alice'', password = ''p1''\<rparr>])"
    by simp
  show ?thesis
    using v m create_duplicate_username_rejected [OF v m] by simp
qed

text \<open>
  C4. A delete request whose id is the id of no row is answered with status 404 and the
  detail \<^verbatim>\<open>User not found\<close> as long as the id fits SQLite's 64-bit integers
  (\<open>route_delete_user_absent\<close>), and the table is the same afterwards. For an id beyond
  that range the lookup of line 94 raises instead: the request for id \<open>2^63\<close>, which no
  row of the empty table has, is answered with 500.
\<close>

theorem delete_out_of_range_id_server_error:
  "decimal ''9223372036854775808'' = Some 9223372036854775808
   \<and> 9223372036854775808 \<notin> set (map id_col [])
   \<and> delete_user 9223372036854775808 [] = (Inl OverflowError, [])
   \<and> route_delete_user decimal ''9223372036854775808'' [] = (InternalServerError, [])
   \<and> status_code (fst (route_delete_user decimal ''9223372036854775808'' [])) = 500"
  by (simp add: route_delete_user_def delete_user_def first_by_id_def sqlite_int_def decimal_def)

text \<open>
  C5. In a table whose ids are pairwise different (the primary key), a delete request for
  the id of a stored row \<open>r\<close> hands back \<open>r\<close>, answers 200 with the id and username of
  \<open>r\<close>, and leaves the table without \<open>r\<close> and with every other row as it was (the rows
  are those of before except \<open>r\<close>, one fewer). The same request once more is answered
  with 404 and changes nothing. The id of \<open>r\<close> is a 64-bit integer, as the id of every
  row that SQLite stores is.
\<close>

theorem delete_existing_id_removes_that_row:
  assumes pk: "distinct (map id_col tbl)"
    and seg: "to_int segment = Some (id_col r)"
    and row: "r \<in> set tbl"
    and stored: "sqlite_int (id_col r)"
  shows "delete_user (id_col r) tbl = (Inr r, remove1 r tbl)
    \<and> route_delete_user to_int segment tbl = (JSONResponse 200 (UserResponse r), remove1 r tbl)
    \<and> set (remove1 r tbl) = set tbl - {r}
    \<and> length (remove1 r tbl) + 1 = length tbl
    \<and> route_delete_user to_int segment (remove1 r tbl) =
        (JSONResponse 404 (JObj [(''detail'', JStr ''User not found'')]), remove1 r tbl)"
proof -
  have d: "distinct tbl"
    using pk by (simp add: distinct_map)
  have h: "delete_user (id_col r) tbl = (Inr r, remove1 r tbl)"
    using stored pk row by (rule delete_user_existing)
  have rt: "route_delete_user to_int segment tbl = (JSONResponse 200 (UserResponse r), remove1 r tbl)"
    using stored pk seg row by (rule route_delete_user_existing)
  have s: "set (remove1 r tbl) = set tbl - {r}"
    using d by simp
  have l: "length (remove1 r tbl) + 1 = length tbl"
  proof -
    have "0 < length tbl" using row by (cases tbl) auto
    then show ?thesis using row by (simp add: length_remove1)
  qed
  have gone: "id_col r \<notin> set (map id_col (remove1 r tbl))"
  proof
    assume "id_col r \<in> set (map id_col (remove1 r tbl))"
    then obtain x where x: "x \<in> set (remove1 r tbl)" "id_col x = id_col r" by auto
    from x(1) s have "x \<in> set tbl" "x \<noteq> r" by auto
    with pk row x(2) show False by (meson distinct_map inj_onD)
  qed
  have again: "route_delete_user to_int segment (remove1 r tbl) =
        (JSONResponse 404 (JObj [(''detail'', JStr ''User not found'')]), remove1 r tbl)"
    using seg stored gone by (rule route_delete_user_absent)
  from h rt s l again show ?thesis by blast
qed

theorem delete_existing_id_removes_that_row_witness:
  "distinct (map id_col [\<lparr>id_col = 1, username = ''alice'', password = ''p1''\<rparr>,
                         \<lparr>id_col = 2, username = ''bob'', password = ''p2''\<rparr>])
   \<and> decimal ''1'' = Some 1
   \<and> sqlite_int 1
   \<and> route_delete_user decimal ''1''
        [\<lparr>id_col = 1, username = ''alice'', password = ''p1''\<rparr>,
         \<lparr>id_col = 2, username = ''bob'', password = ''p2''\<rparr>]
      = (JSONResponse 200 (JObj [(''id'', JNum 1), (''username'', JStr ''alice'')]),
         [\<lparr>id_col = 2, username = ''bob'', password = ''p2''\<rparr>])
   \<and> route_delete_user decimal ''1'' [\<lparr>id_col = 2, username = ''bob'', password = ''p2''\<rparr>]
      = (JSONResponse 404 (JObj [(''detail'', JStr ''User not found'')]),
         [\<lparr>id_col = 2, username = ''bob'', password = ''p2''\<rparr>])"
proof -
  let ?alice = "\<lparr>id_col = 1, username = ''alice'', password = ''p1''\<rparr>"
  let ?bob = "\<lparr>id_col = 2, username = ''bob'', password = ''p2''\<rparr>"
  have pk: "distinct (map id_col [?alice, ?bob])"
    by simp
  have seg: "decimal ''1'' = Some (id_col ?alice)"
    by (simp add: decimal_def)
  have row: "?alice \<in> set [?alice, ?bob]"
    by simp
  have stored: "sqlite_int (id_col ?alice)"
    by (simp add: sqlite_int_def)
  show ?thesis
    using pk seg row stored
      delete_existing_id_removes_that_row [of "[?alice, ?bob]" decimal "''1''" ?alice]
    by (simp add: UserResponse_def)
qed

text \<open>
  C9. A delete request whose path segment the framework cannot convert to an integer is
  answered with the validation error 422, not with 404: \<^verbatim>\<open>delete_user\<close> is not called,
  and the table is the same afterwards. This holds for every converter \<open>to_int\<close>.
\<close>

theorem delete_unparseable_id_rejected:
  assumes "to_int segment = None"
  shows "route_delete_user to_int segment tbl = (RequestValidationError, tbl)
    \<and> status_code (fst (route_delete_user to_int segment tbl)) = 422
    \<and> status_code (fst (route_delete_user to_int segment tbl)) \<noteq> 404"
  using assms by (simp add: route_delete_user_invalid)

theorem delete_unparseable_id_rejected_witness:
  "decimal ''abc'' = None
   \<and> route_delete_user decimal ''abc'' [\<lparr>id_col = 1, username = ''alice'', password = ''p1''\<rparr>]
     = (RequestValidationError, [\<lparr>id_col = 1, username = ''alice'', password = ''p1''\<rparr>])"
proof -
  have n: "decimal ''abc'' = None"
    by (simp add: decimal_def)
  show ?thesis
    using n
      delete_unparseable_id_rejected [of decimal "''abc''"
        "[\<lparr>id_col = 1, username = ''alice'', password = ''p1''\<rparr>]"]
    by simp
qed

subsection \<open>Ids of new rows\<close>

text \<open>
  C2. A create request whose username is not stored succeeds, and its id is above the
  id of every row that is in the table at that moment (\<open>route_create_user_fresh\<close>,
  \<open>next_rowid_gt\<close>). It is not above every id assigned before: alice is created under
  id 1 and deleted, which empties the table; bob, a username never used, is then
  created under id 1 again.
\<close>

theorem create_reuses_deleted_id:
  "replies decimal
     [POST_create_user (JObj [(''username'', JStr ''alice''), (''password'', JStr ''p1'')]),
      DELETE_delete_user ''1''] []
     = [JSONResponse 200
          (JObj [(''id'', JNum 1), (''username'', JStr ''alice''), (''password'', JStr ''p1'')]),
        JSONResponse 200 (JObj [(''id'', JNum 1), (''username'', JStr ''alice'')])]
   \<and> run decimal
     [POST_create_user (JObj [(''username'', JStr ''alice''), (''password'', JStr ''p1'')]),
      DELETE_delete_user ''1''] [] = []
   \<and> route_create_user (JObj [(''username'', JStr ''bob''), (''password'', JStr ''p2'')]) []
     = (JSONResponse 200
          (JObj [(''id'', JNum 1), (''username'', JStr ''bob''), (''password'', JStr ''p2'')]),
        [\<lparr>id_col = 1, username = ''bob'', password = ''p2''\<rparr>])
   \<and> \<not> (1::int) < 1"
  by (simp add: eval_defs)

subsection \<open>The request body of create\<close>

text \<open>
  C6, as the code has it. For every body: the request is answered with the validation
  error exactly when the body is not an object whose members \<^verbatim>\<open>username\<close> and
  \<^verbatim>\<open>password\<close> are both present and both strings, and then the table is not touched.
  A body that has the two string members is accepted whatever else it holds: the
  outcome is that of the create for these two strings, so a member with any other name
  is ignored, not rejected.
\<close>

theorem create_body_needs_username_and_password_only:
  "(fst (route_create_user body tbl) = RequestValidationError \<longleftrightarrow>
      (\<nexists>kvs u p. body = JObj kvs \<and> dict_get ''username'' kvs = Some (JStr u)
          \<and> dict_get ''password'' kvs = Some (JStr p)))
   \<and> (fst (route_create_user body tbl) = RequestValidationError \<longrightarrow>
        snd (route_create_user body tbl) = tbl)
   \<and> (dict_get ''username'' kvs = Some (JStr u) \<and> dict_get ''password'' kvs = Some (JStr p) \<longrightarrow>
        route_create_user (JObj kvs) tbl =
          (if u \<in> set (map username tbl)
           then (JSONResponse 400 (JObj [(''detail'', JStr ''Username already registered'')]), tbl)
           else (JSONResponse 200
                   (jsonable_encoder \<lparr>id_col = next_rowid tbl, username = u, password = p\<rparr>),
                 tbl @ [\<lparr>id_col = next_rowid tbl, username = u, password = p\<rparr>])))
   \<and> (k \<noteq> ''username'' \<and> k \<noteq> ''password'' \<longrightarrow>
        route_create_user (JObj (xs @ (k, v) # ys)) tbl = route_create_user (JObj (xs @ ys)) tbl)"
proof (intro conjI impI)
  show "fst (route_create_user body tbl) = RequestValidationError \<longleftrightarrow>
      (\<nexists>kvs u p. body = JObj kvs \<and> dict_get ''username'' kvs = Some (JStr u)
          \<and> dict_get ''password'' kvs = Some (JStr p))"
  proof (cases "validate_UserCreate body")
    case None
    then have "\<nexists>kvs u p. body = JObj kvs \<and> dict_get ''username'' kvs = Some (JStr u)
          \<and> dict_get ''password'' kvs = Some (JStr p)"
      by (auto simp: str_field_def)
    with None show ?thesis
      by (simp add: route_create_user_invalid)
  next
    case (Some uc)
    then have has: "\<exists>kvs u p. body = JObj kvs \<and> dict_get ''username'' kvs = Some (JStr u)
          \<and> dict_get ''password'' kvs = Some (JStr p)"
      by (cases body) (auto simp: str_field_def split: option.splits json.splits)
    have "fst (route_create_user body tbl) \<noteq> RequestValidationError"
    proof (cases "uc_username uc \<in> set (map username tbl)")
      case True
      with Some show ?thesis by (simp add: route_create_user_taken del: set_map)
    next
      case False
      with Some show ?thesis by (simp add: route_create_user_fresh del: set_map)
    qed
    with has show ?thesis by blast
  qed
next
  assume rejected: "fst (route_create_user body tbl) = RequestValidationError"
  show "snd (route_create_user body tbl) = tbl"
  proof (cases "validate_UserCreate body")
    case None
    then show ?thesis by (simp add: route_create_user_invalid)
  next
    case (Some uc)
    show ?thesis
    proof (cases "uc_username uc \<in> set (map username tbl)")
      case True
      with Some show ?thesis by (simp add: route_create_user_taken del: set_map)
    next
      case False
      with Some rejected show ?thesis by (simp add: route_create_user_fresh del: set_map)
    qed
  qed
next
  assume "dict_get ''username'' kvs = Some (JStr u) \<and> dict_get ''password'' kvs = Some (JStr p)"
  then have v: "validate_UserCreate (JObj kvs) = Some \<lparr>uc_username = u, uc_password = p\<rparr>"
    by (simp add: str_field_def)
  show "route_create_user (JObj kvs) tbl =
          (if u \<in> set (map username tbl)
           then (JSONResponse 400 (JObj [(''detail'', JStr ''Username already registered'')]), tbl)
           else (JSONResponse 200
                   (jsonable_encoder \<lparr>id_col = next_rowid tbl, username = u, password = p\<rparr>),
                 tbl @ [\<lparr>id_col = next_rowid tbl, username = u, password = p\<rparr>]))"
    using route_create_user_taken [OF v, of tbl] route_create_user_fresh [OF v, of tbl]
    by (simp del: set_map)
next
  assume "k \<noteq> ''username'' \<and> k \<noteq> ''password''"
  then have "''username'' \<noteq> k" and "''password'' \<noteq> k"
    by auto
  then have "validate_UserCreate (JObj (xs @ (k, v) # ys)) = validate_UserCreate (JObj (xs @ ys))"
    by (simp add: str_field_skip cong: option.case_cong)
  then show "route_create_user (JObj (xs @ (k, v) # ys)) tbl = route_create_user (JObj (xs @ ys)) tbl"
    by (simp add: route_create_user_def)
qed

theorem create_body_needs_username_and_password_only_witness:
  "fst (route_create_user (JObj [(''username'', JStr ''alice'')]) []) = RequestValidationError
   \<and> snd (route_create_user (JObj [(''username'', JStr ''alice'')]) []) = []
   \<and> fst (route_create_user (JArr [JStr ''alice'', JStr ''p1'']) []) = RequestValidationError
   \<and> dict_get ''username'' [(''username'', JStr ''alice''), (''password'', JStr ''p1'')]
        = Some (JStr ''alice'')
   \<and> dict_get ''password'' [(''username'', JStr ''alice''), (''password'', JStr ''p1'')]
        = Some (JStr ''p1'')
   \<and> route_create_user (JObj [(''username'', JStr ''alice''), (''password'', JStr ''p1'')]) []
        = (JSONResponse 200
             (JObj [(''id'', JNum 1), (''username'', JStr ''alice''), (''password'', JStr ''p1'')]),
           [\<lparr>id_col = 1, username = ''alice'', password = ''p1''\<rparr>])
   \<and> ''is_admin'' \<noteq> ''username'' \<and> ''is_admin'' \<noteq> ''password''
   \<and> route_create_user
        (JObj ([(''username'', JStr ''alice'')] @ (''is_admin'', JBool True)
               # [(''password'', JStr ''p1'')])) []
      = route_create_user
        (JObj ([(''username'', JStr ''alice'')] @ [(''password'', JStr ''p1'')])) []"
proof -
  let ?short = "[(''username'', JStr ''alice'')]"
  let ?full = "[(''username'', JStr ''alice''), (''password'', JStr ''p1'')]"
  have no_pw: "\<nexists>kvs u p. JObj ?short = JObj kvs \<and> dict_get ''username'' kvs = Some (JStr u)
          \<and> dict_get ''password'' kvs = Some (JStr p)"
    by (simp add: dict_get_def)
  have no_obj: "\<nexists>kvs u p. JArr [JStr ''alice'', JStr ''p1''] = JObj kvs
          \<and> dict_get ''username'' kvs = Some (JStr u) \<and> dict_get ''password'' kvs = Some (JStr p)"
    by simp
  have un: "dict_get ''username'' ?full = Some (JStr ''alice'')"
    by (simp add: dict_get_def)
  have pw: "dict_get ''password'' ?full = Some (JStr ''p1'')"
    by (simp add: dict_get_def)
  have other: "''is_admin'' \<noteq> ''username'' \<and> ''is_admin'' \<noteq> ''password''"
    by simp
  have short: "fst (route_create_user (JObj ?short) []) = RequestValidationError
      \<and> snd (route_create_user (JObj ?short) []) = []"
    using no_pw create_body_needs_username_and_password_only [of "JObj ?short" "[]"]
    by blast
  have arr: "fst (route_create_user (JArr [JStr ''alice'', JStr ''p1'']) []) = RequestValidationError"
    using no_obj
      create_body_needs_username_and_password_only [of "JArr [JStr ''alice'', JStr ''p1'']" "[]"]
    by blast
  have full: "route_create_user (JObj ?full) []
        = (JSONResponse 200
             (JObj [(''id'', JNum 1), (''username'', JStr ''alice''), (''password'', JStr ''p1'')]),
           [\<lparr>id_col = 1, username = ''alice'', password = ''p1''\<rparr>])"
    using un pw
      create_body_needs_username_and_password_only
        [of _ "[]" ?full "''alice''" "''p1''"]
    by (simp add: next_rowid_def jsonable_encoder_def)
  have extra: "route_create_user
        (JObj ([(''username'', JStr ''alice'')] @ (''is_admin'', JBool True)
               # [(''password'', JStr ''p1'')])) []
      = route_create_user
        (JObj ([(''username'', JStr ''alice'')] @ [(''password'', JStr ''p1'')])) []"
    using other
      create_body_needs_username_and_password_only
        [of _ "[]" _ _ _ "''is_admin''" "[(''username'', JStr ''alice'')]" "JBool True"
            "[(''password'', JStr ''p1'')]"]
    by blast
  from short arr un pw full other extra show ?thesis by blast
qed

text \<open>
  C6 as stated fails: a body with a third member besides the two required ones is
  accepted, and the user is created.
\<close>

theorem create_accepts_body_with_extra_member:
  "route_create_user
     (JObj [(''username'', JStr ''alice''), (''password'', JStr ''p1''), (''is_admin'', JBool True)]) []
   = (JSONResponse 200
        (JObj [(''id'', JNum 1), (''username'', JStr ''alice''), (''password'', JStr ''p1'')]),
      [\<lparr>id_col = 1, username = ''alice'', password = ''p1''\<rparr>])"
  by (simp add: eval_defs)

subsection \<open>Tables reached from the empty one\<close>

text \<open>
  C7. Start with the empty table and handle any requests (create, list, delete, valid or
  not) one at a time: in the table reached, no two rows have the same username.
\<close>

theorem usernames_unique_in_reachable_tables:
  "distinct (map username (run to_int rqs []))"
  using run_invariants [of "[]" to_int rqs] by simp

theorem usernames_unique_in_reachable_tables_witness:
  "run decimal
     [POST_create_user (JObj [(''username'', JStr ''alice''), (''password'', JStr ''p1'')]),
      POST_create_user (JObj [(''username'', JStr ''alice''), (''password'', JStr ''p2'')]),
      POST_create_user (JObj [(''username'', JStr ''bob''), (''password'', JStr ''p3'')])] []
   = [\<lparr>id_col = 1, username = ''alice'', password = ''p1''\<rparr>,
      \<lparr>id_col = 2, username = ''bob'', password = ''p3''\<rparr>]
   \<and> distinct (map username (run decimal
     [POST_create_user (JObj [(''username'', JStr ''alice''), (''password'', JStr ''p1'')]),
      POST_create_user (JObj [(''username'', JStr ''alice''), (''password'', JStr ''p2'')]),
      POST_create_user (JObj [(''username'', JStr ''bob''), (''password'', JStr ''p3'')])] []))"
proof -
  let ?rqs = "[POST_create_user (JObj [(''username'', JStr ''alice''), (''password'', JStr ''p1'')]),
      POST_create_user (JObj [(''username'', JStr ''alice''), (''password'', JStr ''p2'')]),
      POST_create_user (JObj [(''username'', JStr ''bob''), (''password'', JStr ''p3'')])]"
  have "run decimal ?rqs []
   = [\<lparr>id_col = 1, username = ''alice'', password = ''p1''\<rparr>,
      \<lparr>id_col = 2, username = ''bob'', password = ''p3''\<rparr>]"
    by (simp add: eval_defs)
  moreover have "distinct (map username (run decimal ?rqs []))"
    by (rule usernames_unique_in_reachable_tables)
  ultimately show ?thesis by blast
qed

text \<open>
  C8. Start with the empty table and handle any requests one at a time; let N be the
  number of create requests answered with 200 and M the number of delete requests
  answered with 200. Then M is at most N, the list operation returns exactly N - M
  records, and their ids are pairwise different.
\<close>

theorem list_count_after_creates_and_deletes:
  "length (get_users (run to_int rqs []))
      = count_ok is_create to_int rqs [] - count_ok is_delete to_int rqs []
   \<and> count_ok is_delete to_int rqs [] \<le> count_ok is_create to_int rqs []
   \<and> distinct (map id_col (get_users (run to_int rqs [])))
   \<and> (\<exists>records. fst (route_get_users (run to_int rqs [])) = JSONResponse 200 (JArr records)
        \<and> length records = count_ok is_create to_int rqs [] - count_ok is_delete to_int rqs []
        \<and> distinct (map (member_of ''id'') records))"
proof -
  let ?t = "run to_int rqs []"
  have len: "length ?t + count_ok is_delete to_int rqs [] = count_ok is_create to_int rqs []"
    using run_length [of "[]" to_int rqs] by simp
  have pk: "distinct (map id_col ?t)"
    using run_invariants [of "[]" to_int rqs] by simp
  have ids: "map (member_of ''id'') (map UserResponse ?t) = map (\<lambda>r. Some (JNum (id_col r))) ?t"
    by (simp add: member_of_id_UserResponse)
  have "inj_on (\<lambda>r. Some (JNum (id_col r))) (set ?t)"
    using pk by (auto simp: distinct_map inj_on_def)
  moreover have "distinct ?t"
    using pk by (simp add: distinct_map)
  ultimately have dr: "distinct (map (member_of ''id'') (map UserResponse ?t))"
    unfolding ids by (simp add: distinct_map)
  have resp: "fst (route_get_users ?t) = JSONResponse 200 (JArr (map UserResponse ?t))"
    by (simp add: route_get_users_def get_users_def)
  have l2: "length (map UserResponse ?t)
      = count_ok is_create to_int rqs [] - count_ok is_delete to_int rqs []"
    using len by simp
  show ?thesis
    using len pk resp l2 dr unfolding get_users_def
    by (intro conjI exI [of _ "map UserResponse ?t"]) simp_all
qed

theorem list_count_after_creates_and_deletes_witness:
  "count_ok is_create decimal
     [POST_create_user (JObj [(''username'', JStr ''alice''), (''password'', JStr ''p1'')]),
      POST_create_user (JObj [(''username'', JStr ''alice''), (''password'', JStr ''p2'')]),
      POST_create_user (JObj [(''username'', JStr ''bob''), (''password'', JStr ''p3'')]),
      DELETE_delete_user ''1'', DELETE_delete_user ''1''] [] = 2
   \<and> count_ok is_delete decimal
     [POST_create_user (JObj [(''username'', JStr ''alice''), (''password'', JStr ''p1'')]),
      POST_create_user (JObj [(''username'', JStr ''alice''), (''password'', JStr ''p2'')]),
      POST_create_user (JObj [(''username'', JStr ''bob''), (''password'', JStr ''p3'')]),
      DELETE_delete_user ''1'', DELETE_delete_user ''1''] [] = 1
   \<and> length (get_users (run decimal
     [POST_create_user (JObj [(''username'', JStr ''alice''), (''password'', JStr ''p1'')]),
      POST_create_user (JObj [(''username'', JStr ''alice''), (''password'', JStr ''p2'')]),
      POST_create_user (JObj [(''username'', JStr ''bob''), (''password'', JStr ''p3'')]),
      DELETE_delete_user ''1'', DELETE_delete_user ''1''] [])) = 1"
proof -
  let ?rqs = "[POST_create_user (JObj [(''username'', JStr ''alice''), (''password'', JStr ''p1'')]),
      POST_create_user (JObj [(''username'', JStr ''alice''), (''password'', JStr ''p2'')]),
      POST_create_user (JObj [(''username'', JStr ''bob''), (''password'', JStr ''p3'')]),
      DELETE_delete_user ''1'', DELETE_delete_user ''1'']"
  have n: "count_ok is_create decimal ?rqs [] = 2"
    by (simp add: eval_defs)
  have m: "count_ok is_delete decimal ?rqs [] = 1"
    by (simp add: eval_defs)
  have "length (get_users (run decimal ?rqs []))
      = count_ok is_create decimal ?rqs [] - count_ok is_delete decimal ?rqs []"
    using list_count_after_creates_and_deletes [of decimal ?rqs] by blast
  with n m show ?thesis by simp
qed

subsection \<open>Contents of the strings\<close>



subsection \<open>Response payloads\<close>

text \<open>
  C1. The payloads of list and delete hold the members \<^verbatim>\<open>id\<close> and \<^verbatim>\<open>username\<close> only
  (\<open>get_users_payload_no_password\<close>, \<open>delete_user_payload_no_password\<close>). The create
  route has no response model: creating alice with password p1 in the empty table is
  answered with a payload that has the member \<^verbatim>\<open>password\<close>, holding p1.
\<close>

theorem create_user_response_echoes_password:
  "route_create_user (JObj [(''username'', JStr ''alice''), (''password'', JStr ''p1'')]) []
     = (JSONResponse 200
          (JObj [(''id'', JNum 1), (''username'', JStr ''alice''), (''password'', JStr ''p1'')]),
        [\<lparr>id_col = 1, username = ''alice'', password = ''p1''\<rparr>])
   \<and> ''password'' \<in> set (names_in
          (JObj [(''id'', JNum 1), (''username'', JStr ''alice''), (''password'', JStr ''p1'')]))
   \<and> dict_get ''password''
        [(''id'', JNum 1), (''username'', JStr ''alice''), (''password'', JStr ''p1'')]
      = Some (JStr ''p1'')"
  by (simp add: eval_defs)

end
